theory Spec2Isabelle
  imports Main "HOL-Library.Word"
begin

section \<open>The Kubernetes metadata database of pkg/internal/transform/kube/db.go\<close>

text \<open>
  The Go type \<^verbatim>\<open>Database\<close> holds six maps, each behind its own mutex, and a pointer to
  the informer (\<^verbatim>\<open>*kube.Metadata\<close>). Every method has a pointer receiver and mutates the
  maps in place; here every method takes the database and returns the updated one
  (explicit state passing), together with its Go result where it has one.

  The model is sequential: one method runs from its first statement to its return with
  nothing interleaved, so the mutexes (which only exclude interleavings) carry no
  state of their own and are left out. Diagnostic logging (\<^verbatim>\<open>dblog().Debug\<close>) is not
  part of the state either.
\<close>

subsection \<open>Data\<close>

type_synonym uint32 = "32 word"

text \<open>
  A non-nil Go pointer is an address. The pods, services and nodes that the maps point
  to are owned by the informer and live in its store; a nil pointer result is \<open>None\<close>.
\<close>

type_synonym addr = nat

text \<open>
  \<^verbatim>\<open>container.Info\<close>: the identity of a container as the process inspector reports it.
  The database keeps \<^verbatim>\<open>*container.Info\<close> pointers, but it never writes through them and
  never compares them, so the maps hold the values.
\<close>

record Info =
  ContainerID :: string
  PIDNamespace :: uint32

record IPInfo =
  IPs :: "string list"

text \<open>
  \<^verbatim>\<open>kube.ServiceInfo\<close> and \<^verbatim>\<open>kube.NodeInfo\<close> carry a name, a namespace and the IP list;
  \<^verbatim>\<open>kube.PodInfo\<close> adds the owner metadata that \<^verbatim>\<open>FetchPodOwnerInfo\<close> fills in later.
  The type of that metadata is a parameter \<open>'o\<close>.
\<close>

record ObjectInfo =
  Name :: string
  Namespace :: string
  IPInfo :: IPInfo

record 'o PodInfo = ObjectInfo +
  Owner :: 'o

type_synonym ServiceInfo = ObjectInfo
type_synonym NodeInfo = ObjectInfo

subsection \<open>The informer\<close>

text \<open>
  Modelled from the spec: the type \<^verbatim>\<open>kube.Metadata\<close> and its methods \<^verbatim>\<open>GetContainerPod\<close>
  and \<^verbatim>\<open>FetchPodOwnerInfo\<close> are not among the source files. The spec gives
  \<^verbatim>\<open>GetContainerPod(containerID) -> (PodInfo, found)\<close> and \<^verbatim>\<open>FetchPodOwnerInfo(pod)\<close>, which
  "mutates pod's owner fields in place". The informer state is the store of the objects
  it owns (\<open>podAt\<close>, \<open>svcAt\<close>, \<open>nodeAt\<close>), what it currently answers for a container
  (\<open>containerPod\<close>), the owner metadata it currently knows for a pod (\<open>ownerInfo\<close>), and
  the log of the calls the database has made into it (\<open>calls\<close>), oldest first.
\<close>

datatype InformerCall =
  GetContainerPodCall string
  | FetchPodOwnerInfoCall addr

record 'o Metadata =
  podAt :: "addr \<Rightarrow> 'o PodInfo"
  svcAt :: "addr \<Rightarrow> ServiceInfo"
  nodeAt :: "addr \<Rightarrow> NodeInfo"
  containerPod :: "string \<rightharpoonup> addr"
  ownerInfo :: "'o PodInfo \<Rightarrow> 'o"
  calls :: "InformerCall list"

definition GetContainerPod :: "'o Metadata \<Rightarrow> string \<Rightarrow> addr option \<times> 'o Metadata" where
  "GetContainerPod k containerID =
     (containerPod k containerID, k\<lparr>calls := calls k @ [GetContainerPodCall containerID]\<rparr>)"

definition FetchPodOwnerInfo :: "'o Metadata \<Rightarrow> addr \<Rightarrow> 'o Metadata" where
  "FetchPodOwnerInfo k pod =
     k\<lparr>podAt := (podAt k)(pod := (podAt k pod)\<lparr>Owner := ownerInfo k (podAt k pod)\<rparr>),
       calls := calls k @ [FetchPodOwnerInfoCall pod]\<rparr>"

subsection \<open>The database\<close>

record 'o Database =
  informer :: "'o Metadata"
  containerIDs :: "string \<rightharpoonup> Info"
  namespaces :: "uint32 \<rightharpoonup> Info"
  fetchedPodsCache :: "uint32 \<rightharpoonup> addr"
  podsByIP :: "string \<rightharpoonup> addr"
  svcByIP :: "string \<rightharpoonup> addr"
  nodeByIP :: "string \<rightharpoonup> addr"

definition CreateDatabase :: "'o Metadata \<Rightarrow> 'o Database" where
  "CreateDatabase kubeMetadata =
     \<lparr>informer = kubeMetadata,
      containerIDs = Map.empty,
      namespaces = Map.empty,
      fetchedPodsCache = Map.empty,
      podsByIP = Map.empty,
      svcByIP = Map.empty,
      nodeByIP = Map.empty\<rparr>"

definition deletePodCache :: "'o Database \<Rightarrow> uint32 \<Rightarrow> 'o Database" where
  "deletePodCache db ns = db\<lparr>fetchedPodsCache := (fetchedPodsCache db)(ns := None)\<rparr>"

text \<open>
  One iteration of the loop of \<^verbatim>\<open>OnDeletion\<close>: the entry of \<open>cid\<close> is read and deleted
  from the container-ID map in any case; the pod cache and the namespace map are
  touched only when the entry was there.
\<close>

definition OnDeletion_step :: "'o Database \<Rightarrow> string \<Rightarrow> 'o Database" where
  "OnDeletion_step db cid =
     (let found = containerIDs db cid;
          db1 = db\<lparr>containerIDs := (containerIDs db)(cid := None)\<rparr>
      in case found of
           None \<Rightarrow> db1
         | Some info \<Rightarrow>
             (let db2 = deletePodCache db1 (PIDNamespace info)
              in db2\<lparr>namespaces := (namespaces db2)(PIDNamespace info := None)\<rparr>))"

fun OnDeletion :: "'o Database \<Rightarrow> string list \<Rightarrow> 'o Database" where
  "OnDeletion db [] = db"
| "OnDeletion db (cid # containerID) = OnDeletion (OnDeletion_step db cid) containerID"

definition addProcess :: "'o Database \<Rightarrow> Info \<Rightarrow> 'o Database" where
  "addProcess db ifp =
     (let db1 = deletePodCache db (PIDNamespace ifp);
          db2 = db1\<lparr>namespaces := (namespaces db1)(PIDNamespace ifp \<mapsto> ifp)\<rparr>
      in db2\<lparr>containerIDs := (containerIDs db2)(ContainerID ifp \<mapsto> ifp)\<rparr>)"

text \<open>
  \<^verbatim>\<open>container.InfoForPID\<close> is the external process inspector; it is a parameter. Its Go
  result \<^verbatim>\<open>(Info, error)\<close> is a sum, \<open>Inl\<close> the error.
\<close>

datatype error = InspectError string

definition AddProcess :: "(uint32 \<Rightarrow> error + Info) \<Rightarrow> 'o Database \<Rightarrow> uint32 \<Rightarrow> 'o Database" where
  "AddProcess InfoForPID db pid =
     (case InfoForPID pid of
        Inl err \<Rightarrow> db
      | Inr ifp \<Rightarrow> addProcess db ifp)"

definition CleanProcessCaches :: "'o Database \<Rightarrow> uint32 \<Rightarrow> 'o Database" where
  "CleanProcessCaches db ns = deletePodCache db ns"

text \<open>
  \<^verbatim>\<open>OwnerPodInfo\<close> returns \<^verbatim>\<open>(*kube.PodInfo, bool)\<close>: \<^verbatim>\<open>(nil, false)\<close> is \<open>None\<close> and
  \<^verbatim>\<open>(pod, true)\<close> is \<open>Some pod\<close>. The statements after the \<^verbatim>\<open>if !ok\<close> block, shared by
  the hit and the miss path, are \<open>OwnerPodInfo_refresh\<close>.
\<close>

definition OwnerPodInfo_refresh :: "'o Database \<Rightarrow> addr \<Rightarrow> addr option \<times> 'o Database" where
  "OwnerPodInfo_refresh db pod =
     (Some pod, db\<lparr>informer := FetchPodOwnerInfo (informer db) pod\<rparr>)"

definition OwnerPodInfo :: "'o Database \<Rightarrow> uint32 \<Rightarrow> addr option \<times> 'o Database" where
  "OwnerPodInfo db pidNamespace =
     (case fetchedPodsCache db pidNamespace of
        Some pod \<Rightarrow> OwnerPodInfo_refresh db pod
      | None \<Rightarrow>
          (case namespaces db pidNamespace of
             None \<Rightarrow> (None, db)
           | Some info \<Rightarrow>
               (case GetContainerPod (informer db) (ContainerID info) of
                  (None, k) \<Rightarrow> (None, db\<lparr>informer := k\<rparr>)
                | (Some pod, k) \<Rightarrow>
                    OwnerPodInfo_refresh
                      (db\<lparr>informer := k,
                          fetchedPodsCache := (fetchedPodsCache db)(pidNamespace \<mapsto> pod)\<rparr>)
                      pod)))"

subsection \<open>The IP indexes\<close>

definition UpdateNewPodsByIPIndex :: "'o Database \<Rightarrow> addr \<Rightarrow> 'o Database" where
  "UpdateNewPodsByIPIndex db pod =
     (let ips = IPs (IPInfo (podAt (informer db) pod))
      in if length ips > 0
         then db\<lparr>podsByIP := fold (\<lambda>ip m. m(ip \<mapsto> pod)) ips (podsByIP db)\<rparr>
         else db)"

definition UpdateDeletedPodsByIPIndex :: "'o Database \<Rightarrow> addr \<Rightarrow> 'o Database" where
  "UpdateDeletedPodsByIPIndex db pod =
     (let ips = IPs (IPInfo (podAt (informer db) pod))
      in if length ips > 0
         then db\<lparr>podsByIP := fold (\<lambda>ip m. m(ip := None)) ips (podsByIP db)\<rparr>
         else db)"

definition PodInfoForIP :: "'o Database \<Rightarrow> string \<Rightarrow> addr option \<times> 'o Database" where
  "PodInfoForIP db ip = (podsByIP db ip, db)"

definition UpdateNewServicesByIPIndex :: "'o Database \<Rightarrow> addr \<Rightarrow> 'o Database" where
  "UpdateNewServicesByIPIndex db svc =
     (let ips = IPs (IPInfo (svcAt (informer db) svc))
      in if length ips > 0
         then db\<lparr>svcByIP := fold (\<lambda>ip m. m(ip \<mapsto> svc)) ips (svcByIP db)\<rparr>
         else db)"

definition UpdateDeletedServicesByIPIndex :: "'o Database \<Rightarrow> addr \<Rightarrow> 'o Database" where
  "UpdateDeletedServicesByIPIndex db svc =
     (let ips = IPs (IPInfo (svcAt (informer db) svc))
      in if length ips > 0
         then db\<lparr>svcByIP := fold (\<lambda>ip m. m(ip := None)) ips (svcByIP db)\<rparr>
         else db)"

definition ServiceInfoForIP :: "'o Database \<Rightarrow> string \<Rightarrow> addr option \<times> 'o Database" where
  "ServiceInfoForIP db ip = (svcByIP db ip, db)"

definition UpdateNewNodesByIPIndex :: "'o Database \<Rightarrow> addr \<Rightarrow> 'o Database" where
  "UpdateNewNodesByIPIndex db svc =
     (let ips = IPs (IPInfo (nodeAt (informer db) svc))
      in if length ips > 0
         then db\<lparr>nodeByIP := fold (\<lambda>ip m. m(ip \<mapsto> svc)) ips (nodeByIP db)\<rparr>
         else db)"

definition UpdateDeletedNodesByIPIndex :: "'o Database \<Rightarrow> addr \<Rightarrow> 'o Database" where
  "UpdateDeletedNodesByIPIndex db svc =
     (let ips = IPs (IPInfo (nodeAt (informer db) svc))
      in if length ips > 0
         then db\<lparr>nodeByIP := fold (\<lambda>ip m. m(ip := None)) ips (nodeByIP db)\<rparr>
         else db)"

definition NodeInfoForIP :: "'o Database \<Rightarrow> string \<Rightarrow> addr option \<times> 'o Database" where
  "NodeInfoForIP db ip = (nodeByIP db ip, db)"

text \<open>
  The two name lookups test the three indexes in the order service, pod, node and
  return at the first hit.
\<close>

definition HostNameForIP :: "'o Database \<Rightarrow> string \<Rightarrow> string \<times> 'o Database" where
  "HostNameForIP db ip =
     (case svcByIP db ip of
        Some svc \<Rightarrow> (Name (svcAt (informer db) svc), db)
      | None \<Rightarrow>
          (case podsByIP db ip of
             Some pod \<Rightarrow> (Name (podAt (informer db) pod), db)
           | None \<Rightarrow>
               (case nodeByIP db ip of
                  Some node \<Rightarrow> (Name (nodeAt (informer db) node), db)
                | None \<Rightarrow> ('''', db))))"

text \<open>
  The method \<^verbatim>\<open>PodInfo.ServiceName()\<close> is declared outside the source files; it is the
  parameter \<open>ServiceName\<close>.
\<close>

definition ServiceNameNamespaceForIP ::
  "('o PodInfo \<Rightarrow> string) \<Rightarrow> 'o Database \<Rightarrow> string \<Rightarrow> (string \<times> string) \<times> 'o Database" where
  "ServiceNameNamespaceForIP ServiceName db ip =
     (case svcByIP db ip of
        Some svc \<Rightarrow> ((Name (svcAt (informer db) svc), Namespace (svcAt (informer db) svc)), db)
      | None \<Rightarrow>
          (case podsByIP db ip of
             Some pod \<Rightarrow>
               ((ServiceName (podAt (informer db) pod), Namespace (podAt (informer db) pod)), db)
           | None \<Rightarrow>
               (case nodeByIP db ip of
                  Some node \<Rightarrow>
                    ((Name (nodeAt (informer db) node), Namespace (nodeAt (informer db) node)), db)
                | None \<Rightarrow> (('''', ''''), db))))"

subsection \<open>States the code can reach\<close>

text \<open>
  The fields of \<^verbatim>\<open>Database\<close> are unexported: a database is built by \<^verbatim>\<open>CreateDatabase\<close>
  and changed only by its methods, while the informer changes its own state from its
  own goroutines. The event handlers that \<^verbatim>\<open>StartDatabase\<close> registers call the six
  \<^verbatim>\<open>Update...ByIPIndex\<close> methods (an update event is the deletion of the old object
  followed by the addition of the new one). The five IP and name lookups return the
  database as it was, so they add no state.
\<close>

inductive reachable :: "'o Database \<Rightarrow> bool" where
  created: "reachable (CreateDatabase kubeMetadata)"
| deleted: "reachable db \<Longrightarrow> reachable (OnDeletion db containerID)"
| added: "reachable db \<Longrightarrow> reachable (AddProcess InfoForPID db pid)"
| cleaned: "reachable db \<Longrightarrow> reachable (CleanProcessCaches db ns)"
| owner_looked_up: "reachable db \<Longrightarrow> reachable (snd (OwnerPodInfo db pidNamespace))"
| pod_added: "reachable db \<Longrightarrow> reachable (UpdateNewPodsByIPIndex db pod)"
| pod_deleted: "reachable db \<Longrightarrow> reachable (UpdateDeletedPodsByIPIndex db pod)"
| service_added: "reachable db \<Longrightarrow> reachable (UpdateNewServicesByIPIndex db svc)"
| service_deleted: "reachable db \<Longrightarrow> reachable (UpdateDeletedServicesByIPIndex db svc)"
| node_added: "reachable db \<Longrightarrow> reachable (UpdateNewNodesByIPIndex db node)"
| node_deleted: "reachable db \<Longrightarrow> reachable (UpdateDeletedNodesByIPIndex db node)"
| informer_changed: "reachable db \<Longrightarrow> reachable (db\<lparr>informer := kubeMetadata\<rparr>)"

text \<open>
  Every entry of the namespace map sits under the PID namespace of the container it
  holds: \<^verbatim>\<open>addProcess\<close>, the only writer, stores \<^verbatim>\<open>ifp\<close> under \<^verbatim>\<open>ifp.PIDNamespace\<close>.
\<close>

definition namespaces_keyed :: "'o Database \<Rightarrow> bool" where
  "namespaces_keyed db =
     (\<forall>ns info. namespaces db ns = Some info \<longrightarrow> PIDNamespace info = ns)"

subsection \<open>A concrete cluster\<close>

text \<open>
  One pod with two addresses, one service sharing the second of them, one node. The
  inspector knows three processes: 100 in container c1, 200 in a second container c2
  of the same PID namespace, and 101, again in container c1 but in a PID namespace of
  its own (a process that has unshared its PID namespace keeps the cgroup, and so the
  container ID, of its parent).
\<close>

definition example_informer :: "string Metadata" where
  "example_informer =
     \<lparr>podAt = (\<lambda>a. \<lparr>Name = ''web-1'', Namespace = ''prod'',
                     IPInfo = \<lparr>IPs = [''10.0.0.5'', ''10.0.0.9'']\<rparr>, Owner = ''web''\<rparr>),
      svcAt = (\<lambda>a. \<lparr>Name = ''svc-a'', Namespace = ''default'',
                     IPInfo = \<lparr>IPs = [''10.0.0.9'']\<rparr>\<rparr>),
      nodeAt = (\<lambda>a. \<lparr>Name = ''node-1'', Namespace = '''',
                      IPInfo = \<lparr>IPs = [''10.0.0.1'']\<rparr>\<rparr>),
      containerPod = [''c1'' \<mapsto> 1, ''c2'' \<mapsto> 1],
      ownerInfo = (\<lambda>p. ''web-deployment''),
      calls = []\<rparr>"

definition example_ServiceName :: "string PodInfo \<Rightarrow> string" where
  "example_ServiceName pod = (if Owner pod = '''' then Name pod else Owner pod)"

definition example_InfoForPID :: "uint32 \<Rightarrow> error + Info" where
  "example_InfoForPID pid =
     (if pid = 100 then Inr \<lparr>ContainerID = ''c1'', PIDNamespace = 7\<rparr>
      else if pid = 101 then Inr \<lparr>ContainerID = ''c1'', PIDNamespace = 8\<rparr>
      else if pid = 200 then Inr \<lparr>ContainerID = ''c2'', PIDNamespace = 7\<rparr>
      else Inl (InspectError ''no such process''))"

definition example_db :: "string Database" where
  "example_db =
     UpdateNewNodesByIPIndex
       (UpdateNewServicesByIPIndex
          (UpdateNewPodsByIPIndex (CreateDatabase example_informer) 1) 2) 3"

definition example_db_c1 :: "string Database" where
  "example_db_c1 = AddProcess example_InfoForPID example_db 100"

definition example_db_cached :: "string Database" where
  "example_db_cached = snd (OwnerPodInfo example_db_c1 7)"


lemmas db_defs =
  CreateDatabase_def deletePodCache_def OnDeletion_step_def addProcess_def AddProcess_def
  CleanProcessCaches_def OwnerPodInfo_refresh_def OwnerPodInfo_def GetContainerPod_def
  FetchPodOwnerInfo_def

lemmas ip_defs =
  UpdateNewPodsByIPIndex_def UpdateDeletedPodsByIPIndex_def PodInfoForIP_def
  UpdateNewServicesByIPIndex_def UpdateDeletedServicesByIPIndex_def ServiceInfoForIP_def
  UpdateNewNodesByIPIndex_def UpdateDeletedNodesByIPIndex_def NodeInfoForIP_def
  HostNameForIP_def ServiceNameNamespaceForIP_def

section \<open>Properties\<close>

subsection \<open>The loops over an IP list\<close>

lemma fold_upd_apply:
  "fold (\<lambda>ip m. m(ip \<mapsto> v)) ips m x = (if x \<in> set ips then Some v else m x)"
  by (induction ips arbitrary: m) auto

lemma fold_del_apply:
  "fold (\<lambda>ip m. m(ip := None)) ips m x = (if x \<in> set ips then None else m x)"
  by (induction ips arbitrary: m) auto

subsection \<open>The namespace map stays keyed by PID namespace\<close>

lemma namespaces_keyed_CreateDatabase: "namespaces_keyed (CreateDatabase k)"
  by (simp add: namespaces_keyed_def CreateDatabase_def)

lemma namespaces_OnDeletion_step:
  "namespaces (OnDeletion_step db cid) ns = Some info \<Longrightarrow> namespaces db ns = Some info"
  by (auto simp: OnDeletion_step_def deletePodCache_def Let_def
           split: option.splits if_splits)

lemma namespaces_keyed_OnDeletion_step:
  "namespaces_keyed db \<Longrightarrow> namespaces_keyed (OnDeletion_step db cid)"
  unfolding namespaces_keyed_def by (blast dest: namespaces_OnDeletion_step)

lemma namespaces_keyed_OnDeletion:
  "namespaces_keyed db \<Longrightarrow> namespaces_keyed (OnDeletion db cids)"
  by (induction cids arbitrary: db) (simp_all add: namespaces_keyed_OnDeletion_step)

lemma namespaces_keyed_addProcess:
  "namespaces_keyed db \<Longrightarrow> namespaces_keyed (addProcess db ifp)"
  by (simp add: namespaces_keyed_def addProcess_def deletePodCache_def Let_def)

lemma namespaces_keyed_AddProcess:
  "namespaces_keyed db \<Longrightarrow> namespaces_keyed (AddProcess InfoForPID db pid)"
  by (simp add: AddProcess_def namespaces_keyed_addProcess split: sum.splits)

lemma namespaces_OwnerPodInfo: "namespaces (snd (OwnerPodInfo db ns)) = namespaces db"
  by (simp add: OwnerPodInfo_def OwnerPodInfo_refresh_def split: option.splits prod.splits)

lemma namespaces_keyed_cong:
  "namespaces db' = namespaces db \<Longrightarrow> namespaces_keyed db \<Longrightarrow> namespaces_keyed db'"
  by (simp add: namespaces_keyed_def)

lemma reachable_namespaces_keyed: "reachable db \<Longrightarrow> namespaces_keyed db"
proof (induction rule: reachable.induct)
  case (created kubeMetadata)
  show ?case by (rule namespaces_keyed_CreateDatabase)
next
  case (deleted db containerID)
  then show ?case by (simp add: namespaces_keyed_OnDeletion)
next
  case (added db InfoForPID pid)
  then show ?case by (simp add: namespaces_keyed_AddProcess)
next
  case (owner_looked_up db pidNamespace)
  from owner_looked_up.IH show ?case
    by (rule namespaces_keyed_cong [OF namespaces_OwnerPodInfo])
qed (simp_all add: namespaces_keyed_def CleanProcessCaches_def deletePodCache_def
       ip_defs Let_def)

subsection \<open>Deleting containers\<close>

lemma OnDeletion_step_absent:
  "containerIDs db cid = None \<Longrightarrow> OnDeletion_step db cid = db"
  by (simp add: OnDeletion_step_def fun_upd_idem)

lemma OnDeletion_step_containerIDs:
  "containerIDs (OnDeletion_step db cid) = (containerIDs db)(cid := None)"
  by (simp add: OnDeletion_step_def deletePodCache_def Let_def split: option.splits)

lemma OnDeletion_containerIDs:
  "containerIDs (OnDeletion db cids) x = (if x \<in> set cids then None else containerIDs db x)"
  by (induction cids arbitrary: db) (auto simp: OnDeletion_step_containerIDs)

lemma OnDeletion_absent:
  "\<forall>cid \<in> set cids. containerIDs db cid = None \<Longrightarrow> OnDeletion db cids = db"
  by (induction cids arbitrary: db) (auto simp: OnDeletion_step_absent)

subsection \<open>The states of the example\<close>

lemma example_db_eq:
  "example_db =
     \<lparr>informer = example_informer,
      containerIDs = Map.empty,
      namespaces = Map.empty,
      fetchedPodsCache = Map.empty,
      podsByIP = [''10.0.0.5'' \<mapsto> 1, ''10.0.0.9'' \<mapsto> 1],
      svcByIP = [''10.0.0.9'' \<mapsto> 2],
      nodeByIP = [''10.0.0.1'' \<mapsto> 3]\<rparr>"
  by (simp add: example_db_def example_informer_def CreateDatabase_def
      UpdateNewPodsByIPIndex_def UpdateNewServicesByIPIndex_def UpdateNewNodesByIPIndex_def
      Let_def)

lemma example_db_c1_eq:
  "example_db_c1 =
     \<lparr>informer = example_informer,
      containerIDs = [''c1'' \<mapsto> \<lparr>ContainerID = ''c1'', PIDNamespace = 7\<rparr>],
      namespaces = [7 \<mapsto> \<lparr>ContainerID = ''c1'', PIDNamespace = 7\<rparr>],
      fetchedPodsCache = Map.empty,
      podsByIP = [''10.0.0.5'' \<mapsto> 1, ''10.0.0.9'' \<mapsto> 1],
      svcByIP = [''10.0.0.9'' \<mapsto> 2],
      nodeByIP = [''10.0.0.1'' \<mapsto> 3]\<rparr>"
  by (simp add: example_db_c1_def example_db_eq example_InfoForPID_def AddProcess_def
      addProcess_def deletePodCache_def Let_def)

lemma example_db_cached_eq:
  "example_db_cached =
     \<lparr>informer = FetchPodOwnerInfo (snd (GetContainerPod example_informer ''c1'')) 1,
      containerIDs = [''c1'' \<mapsto> \<lparr>ContainerID = ''c1'', PIDNamespace = 7\<rparr>],
      namespaces = [7 \<mapsto> \<lparr>ContainerID = ''c1'', PIDNamespace = 7\<rparr>],
      fetchedPodsCache = [7 \<mapsto> 1],
      podsByIP = [''10.0.0.5'' \<mapsto> 1, ''10.0.0.9'' \<mapsto> 1],
      svcByIP = [''10.0.0.9'' \<mapsto> 2],
      nodeByIP = [''10.0.0.1'' \<mapsto> 3]\<rparr>"
  by (simp add: example_db_cached_def example_db_c1_eq OwnerPodInfo_def
      OwnerPodInfo_refresh_def GetContainerPod_def example_informer_def)



lemmas example_eqs =
  example_db_eq example_db_c1_eq example_db_cached_eq example_informer_def
  example_InfoForPID_def example_ServiceName_def

subsection \<open>The claims\<close>

text \<open>
  C1: both name lookups resolve an IP with the precedence service, pod, node, empty
  string. A service hit answers with the service's name (and namespace), whatever the
  pod and node indexes hold for that IP; without a service hit a pod hit answers with
  the pod's name, respectively its service name and namespace; without either a node
  hit answers; with no hit the result is the empty string, respectively a pair of
  empty strings.
\<close>

theorem name_lookup_precedence:
  "(svcByIP db ip = Some svc \<longrightarrow>
      fst (HostNameForIP db ip) = Name (svcAt (informer db) svc) \<and>
      fst (ServiceNameNamespaceForIP ServiceName db ip) =
        (Name (svcAt (informer db) svc), Namespace (svcAt (informer db) svc)))
   \<and> (svcByIP db ip = None \<and> podsByIP db ip = Some pod \<longrightarrow>
      fst (HostNameForIP db ip) = Name (podAt (informer db) pod) \<and>
      fst (ServiceNameNamespaceForIP ServiceName db ip) =
        (ServiceName (podAt (informer db) pod), Namespace (podAt (informer db) pod)))
   \<and> (svcByIP db ip = None \<and> podsByIP db ip = None \<and> nodeByIP db ip = Some node \<longrightarrow>
      fst (HostNameForIP db ip) = Name (nodeAt (informer db) node) \<and>
      fst (ServiceNameNamespaceForIP ServiceName db ip) =
        (Name (nodeAt (informer db) node), Namespace (nodeAt (informer db) node)))
   \<and> (svcByIP db ip = None \<and> podsByIP db ip = None \<and> nodeByIP db ip = None \<longrightarrow>
      fst (HostNameForIP db ip) = '''' \<and>
      fst (ServiceNameNamespaceForIP ServiceName db ip) = ('''', ''''))"
  by (simp add: HostNameForIP_def ServiceNameNamespaceForIP_def)

text \<open>
  In the example the address 10.0.0.9 is in the service index and in the pod index,
  and the service answers; 10.0.0.5 is the pod's alone, 10.0.0.1 the node's, and
  10.0.0.7 is unknown.
\<close>

theorem name_lookup_precedence_witness:
  "svcByIP example_db ''10.0.0.9'' = Some 2 \<and> podsByIP example_db ''10.0.0.9'' = Some 1
   \<and> fst (HostNameForIP example_db ''10.0.0.9'') = ''svc-a''
   \<and> fst (ServiceNameNamespaceForIP example_ServiceName example_db ''10.0.0.9'') =
       (''svc-a'', ''default'')
   \<and> svcByIP example_db ''10.0.0.5'' = None \<and> podsByIP example_db ''10.0.0.5'' = Some 1
   \<and> fst (HostNameForIP example_db ''10.0.0.5'') = ''web-1''
   \<and> fst (ServiceNameNamespaceForIP example_ServiceName example_db ''10.0.0.5'') =
       (''web'', ''prod'')
   \<and> podsByIP example_db ''10.0.0.1'' = None \<and> nodeByIP example_db ''10.0.0.1'' = Some 3
   \<and> fst (HostNameForIP example_db ''10.0.0.1'') = ''node-1''
   \<and> fst (ServiceNameNamespaceForIP example_ServiceName example_db ''10.0.0.1'') =
       (''node-1'', '''')
   \<and> nodeByIP example_db ''10.0.0.7'' = None
   \<and> fst (HostNameForIP example_db ''10.0.0.7'') = ''''
   \<and> fst (ServiceNameNamespaceForIP example_ServiceName example_db ''10.0.0.7'') =
       ('''', '''')"
  using name_lookup_precedence [of example_db "''10.0.0.9''" 2 example_ServiceName 1 3]
    name_lookup_precedence [of example_db "''10.0.0.5''" 2 example_ServiceName 1 3]
    name_lookup_precedence [of example_db "''10.0.0.1''" 2 example_ServiceName 1 3]
    name_lookup_precedence [of example_db "''10.0.0.7''" 2 example_ServiceName 1 3]
  by (simp add: example_eqs ip_defs Let_def)




text \<open>
  C3: \<^verbatim>\<open>OwnerPodInfo\<close> answers not-found exactly when the pod-owner cache has no entry
  for the namespace and either the namespace map has none or \<^verbatim>\<open>GetContainerPod\<close> does
  not resolve the container; a cache hit returns the cached pod; a miss that resolves
  returns the resolved pod and leaves it in the pod-owner cache under the namespace.
\<close>

theorem OwnerPodInfo_result:
  "(fst (OwnerPodInfo db ns) = None \<longleftrightarrow>
      fetchedPodsCache db ns = None \<and>
      (namespaces db ns = None \<or>
       (\<exists>info. namespaces db ns = Some info \<and>
               fst (GetContainerPod (informer db) (ContainerID info)) = None)))
   \<and> (fetchedPodsCache db ns = Some pod \<longrightarrow> fst (OwnerPodInfo db ns) = Some pod)
   \<and> (fetchedPodsCache db ns = None \<and> namespaces db ns = Some info \<and>
        fst (GetContainerPod (informer db) (ContainerID info)) = Some pod \<longrightarrow>
        fst (OwnerPodInfo db ns) = Some pod \<and>
        fetchedPodsCache (snd (OwnerPodInfo db ns)) ns = Some pod)"
  by (auto simp: OwnerPodInfo_def OwnerPodInfo_refresh_def GetContainerPod_def
           split: option.splits prod.splits)

text \<open>
  Namespace 7 of the example resolves on the first lookup and is answered from the
  cache on the second; namespace 8 has no container.
\<close>

theorem OwnerPodInfo_result_witness:
  "fetchedPodsCache example_db_c1 7 = None
   \<and> fst (OwnerPodInfo example_db_c1 7) = Some 1
   \<and> fetchedPodsCache (snd (OwnerPodInfo example_db_c1 7)) 7 = Some 1
   \<and> fst (OwnerPodInfo example_db_cached 7) = Some 1
   \<and> namespaces example_db_c1 8 = None
   \<and> fst (OwnerPodInfo example_db_c1 8) = None"
  using OwnerPodInfo_result
      [of example_db_c1 7 1 "\<lparr>ContainerID = ''c1'', PIDNamespace = 7\<rparr>"]
    OwnerPodInfo_result
      [of example_db_cached 7 1 "\<lparr>ContainerID = ''c1'', PIDNamespace = 7\<rparr>"]
    OwnerPodInfo_result
      [of example_db_c1 8 1 "\<lparr>ContainerID = ''c1'', PIDNamespace = 7\<rparr>"]
  by (simp add: example_eqs db_defs ip_defs Let_def)

text \<open>
  C4: for every IP of a pod's IP list, \<^verbatim>\<open>PodInfoForIP\<close> right after
  \<^verbatim>\<open>UpdateNewPodsByIPIndex(pod)\<close> returns the pod, and \<^verbatim>\<open>PodInfoForIP\<close> after a following
  \<^verbatim>\<open>UpdateDeletedPodsByIPIndex(pod)\<close> returns nil. (The state is threaded through the
  first lookup, of any address \<open>ip'\<close>.)
\<close>

theorem pods_by_ip_round_trip:
  assumes "ip \<in> set (IPs (IPInfo (podAt (informer db) pod)))"
  shows "fst (PodInfoForIP (UpdateNewPodsByIPIndex db pod) ip) = Some pod
    \<and> fst (PodInfoForIP
             (UpdateDeletedPodsByIPIndex
                (snd (PodInfoForIP (UpdateNewPodsByIPIndex db pod) ip')) pod) ip) = None"
  using assms
  by (auto simp: PodInfoForIP_def UpdateNewPodsByIPIndex_def UpdateDeletedPodsByIPIndex_def
                 fold_upd_apply fold_del_apply Let_def)

theorem pods_by_ip_round_trip_witness:
  "IPs (IPInfo (podAt example_informer 4)) = [''10.0.0.5'', ''10.0.0.9'']
   \<and> fst (PodInfoForIP (UpdateNewPodsByIPIndex example_db 4) ''10.0.0.9'') = Some 4
   \<and> fst (PodInfoForIP
           (UpdateDeletedPodsByIPIndex
              (snd (PodInfoForIP (UpdateNewPodsByIPIndex example_db 4) ''10.0.0.9'')) 4)
           ''10.0.0.9'') = None"
proof -
  have mem: "''10.0.0.9'' \<in> set (IPs (IPInfo (podAt (informer example_db) 4)))"
    by (simp add: example_eqs ip_defs Let_def)
  show ?thesis
    using pods_by_ip_round_trip [OF mem, of "''10.0.0.9''"]
    by (simp add: example_eqs)
qed

text \<open>
  C5: running \<^verbatim>\<open>OnDeletion\<close> a second time with the same list of container IDs gives
  the state the first run gave, and \<^verbatim>\<open>OnDeletion\<close> of one ID that the container-ID map
  does not hold returns the database unchanged.
\<close>

theorem OnDeletion_idempotent:
  "OnDeletion (OnDeletion db cids) cids = OnDeletion db cids
   \<and> (containerIDs db cid = None \<longrightarrow> OnDeletion db [cid] = db)"
proof
  have "\<forall>c \<in> set cids. containerIDs (OnDeletion db cids) c = None"
    by (simp add: OnDeletion_containerIDs)
  then show "OnDeletion (OnDeletion db cids) cids = OnDeletion db cids"
    by (rule OnDeletion_absent)
next
  show "containerIDs db cid = None \<longrightarrow> OnDeletion db [cid] = db"
    by (simp add: OnDeletion_step_absent)
qed

theorem OnDeletion_idempotent_witness:
  "OnDeletion (OnDeletion example_db_cached [''c1'', ''c9'']) [''c1'', ''c9'']
     = OnDeletion example_db_cached [''c1'', ''c9'']
   \<and> containerIDs example_db_cached ''c9'' = None
   \<and> OnDeletion example_db_cached [''c9''] = example_db_cached
   \<and> containerIDs (OnDeletion example_db_cached [''c1'', ''c9'']) ''c1''
       \<noteq> containerIDs example_db_cached ''c1''"
proof -
  have absent: "containerIDs example_db_cached ''c9'' = None"
    by (simp add: example_eqs db_defs ip_defs Let_def)
  have changed: "containerIDs (OnDeletion example_db_cached [''c1'', ''c9'']) ''c1''
       \<noteq> containerIDs example_db_cached ''c1''"
    by (simp add: OnDeletion_containerIDs) (simp add: example_eqs db_defs ip_defs Let_def)
  show ?thesis
    using OnDeletion_idempotent [of example_db_cached "[''c1'', ''c9'']" "''c9''"]
      absent changed
    by simp
qed

text \<open>
  C6: when \<^verbatim>\<open>InfoForPID\<close> returns an error for \<open>pid\<close>, \<^verbatim>\<open>AddProcess(pid)\<close> returns the
  database unchanged, all of its maps included.
\<close>

theorem AddProcess_inspection_error:
  "InfoForPID pid = Inl err \<Longrightarrow> AddProcess InfoForPID db pid = db"
  by (simp add: AddProcess_def)

theorem AddProcess_inspection_error_witness:
  "example_InfoForPID 300 = Inl (InspectError ''no such process'')
   \<and> AddProcess example_InfoForPID example_db_cached 300 = example_db_cached"
proof -
  have err: "example_InfoForPID 300 = Inl (InspectError ''no such process'')"
    by (simp add: example_InfoForPID_def)
  show ?thesis
    using AddProcess_inspection_error
        [where InfoForPID = example_InfoForPID and pid = 300 and db = example_db_cached
           and err = "InspectError ''no such process''"] err
    by simp
qed

text \<open>
  C7: \<^verbatim>\<open>CleanProcessCaches(ns)\<close> changes the pod-owner cache at the key \<open>ns\<close>, where
  it leaves no entry, and nothing else: the namespace map (the entry of \<open>ns\<close>
  included), the container-ID map, the three IP indexes and the informer are as
  before.
\<close>

theorem CleanProcessCaches_frame:
  "CleanProcessCaches db ns = db\<lparr>fetchedPodsCache := (fetchedPodsCache db)(ns := None)\<rparr>
   \<and> fetchedPodsCache (CleanProcessCaches db ns) = (fetchedPodsCache db)(ns := None)
   \<and> namespaces (CleanProcessCaches db ns) = namespaces db
   \<and> containerIDs (CleanProcessCaches db ns) = containerIDs db
   \<and> podsByIP (CleanProcessCaches db ns) = podsByIP db
   \<and> svcByIP (CleanProcessCaches db ns) = svcByIP db
   \<and> nodeByIP (CleanProcessCaches db ns) = nodeByIP db
   \<and> informer (CleanProcessCaches db ns) = informer db"
  by (simp add: CleanProcessCaches_def deletePodCache_def)

theorem CleanProcessCaches_frame_witness:
  "fetchedPodsCache example_db_cached 7 = Some 1
   \<and> fetchedPodsCache (CleanProcessCaches example_db_cached 7) 7 = None
   \<and> namespaces (CleanProcessCaches example_db_cached 7) 7
       = Some \<lparr>ContainerID = ''c1'', PIDNamespace = 7\<rparr>
   \<and> containerIDs (CleanProcessCaches example_db_cached 7) ''c1''
       = Some \<lparr>ContainerID = ''c1'', PIDNamespace = 7\<rparr>"
  using CleanProcessCaches_frame [of example_db_cached 7]
  by (simp add: example_eqs db_defs ip_defs Let_def)

text \<open>
  C8: whenever \<^verbatim>\<open>OwnerPodInfo\<close> returns a pod, its last call into the informer is
  \<^verbatim>\<open>FetchPodOwnerInfo\<close> on that pod, and the informer state it returns with is the one
  that call produced: on a cache hit it is the only call; on a miss it follows the
  \<^verbatim>\<open>GetContainerPod\<close> call for the container of the namespace.
\<close>

theorem OwnerPodInfo_fetches_owner:
  assumes "fst (OwnerPodInfo db ns) = Some pod"
  shows "(fetchedPodsCache db ns = Some pod \<and>
          informer (snd (OwnerPodInfo db ns)) = FetchPodOwnerInfo (informer db) pod \<and>
          calls (informer (snd (OwnerPodInfo db ns))) =
            calls (informer db) @ [FetchPodOwnerInfoCall pod])
       \<or> (fetchedPodsCache db ns = None \<and>
          (\<exists>info. namespaces db ns = Some info \<and>
             informer (snd (OwnerPodInfo db ns)) =
               FetchPodOwnerInfo (snd (GetContainerPod (informer db) (ContainerID info))) pod \<and>
             calls (informer (snd (OwnerPodInfo db ns))) =
               calls (informer db) @
                 [GetContainerPodCall (ContainerID info), FetchPodOwnerInfoCall pod]))"
  using assms
  by (auto simp: OwnerPodInfo_def OwnerPodInfo_refresh_def GetContainerPod_def
                 FetchPodOwnerInfo_def
           split: option.splits prod.splits)

text \<open>
  In the example the first lookup of namespace 7 misses and the second hits; the log
  shows \<^verbatim>\<open>FetchPodOwnerInfo\<close> after each, and the pod in the store has the owner
  metadata the informer knows.
\<close>

theorem OwnerPodInfo_fetches_owner_witness:
  "fst (OwnerPodInfo example_db_c1 7) = Some 1
   \<and> calls (informer (snd (OwnerPodInfo example_db_c1 7)))
       = [GetContainerPodCall ''c1'', FetchPodOwnerInfoCall 1]
   \<and> fst (OwnerPodInfo example_db_cached 7) = Some 1
   \<and> calls (informer (snd (OwnerPodInfo example_db_cached 7)))
       = [GetContainerPodCall ''c1'', FetchPodOwnerInfoCall 1, FetchPodOwnerInfoCall 1]
   \<and> Owner (podAt (informer (snd (OwnerPodInfo example_db_cached 7))) 1) = ''web-deployment''"
proof -
  have miss: "fst (OwnerPodInfo example_db_c1 7) = Some 1"
    by (simp add: example_eqs db_defs ip_defs Let_def)
  have hit: "fst (OwnerPodInfo example_db_cached 7) = Some 1"
    by (simp add: example_eqs db_defs ip_defs Let_def)
  show ?thesis
    using OwnerPodInfo_fetches_owner [OF miss] OwnerPodInfo_fetches_owner [OF hit]
    by (simp add: example_eqs db_defs ip_defs Let_def)
qed

text \<open>
  C9: each of \<^verbatim>\<open>PodInfoForIP\<close>, \<^verbatim>\<open>ServiceInfoForIP\<close>, \<^verbatim>\<open>NodeInfoForIP\<close>, \<^verbatim>\<open>HostNameForIP\<close>
  and \<^verbatim>\<open>ServiceNameNamespaceForIP\<close> returns the database it was given, all six maps
  unchanged; \<^verbatim>\<open>OwnerPodInfo\<close> does change the pod-owner cache when a miss resolves.
\<close>

theorem lookups_frame:
  "snd (PodInfoForIP db ip) = db
   \<and> snd (ServiceInfoForIP db ip) = db
   \<and> snd (NodeInfoForIP db ip) = db
   \<and> snd (HostNameForIP db ip) = db
   \<and> snd (ServiceNameNamespaceForIP ServiceName db ip) = db
   \<and> (fetchedPodsCache db ns = None \<and> namespaces db ns = Some info \<and>
        fst (GetContainerPod (informer db) (ContainerID info)) = Some pod \<longrightarrow>
        fetchedPodsCache (snd (OwnerPodInfo db ns)) \<noteq> fetchedPodsCache db)"
proof -
  have "fetchedPodsCache (snd (OwnerPodInfo db ns)) ns \<noteq> fetchedPodsCache db ns"
    if "fetchedPodsCache db ns = None" "namespaces db ns = Some info"
      "fst (GetContainerPod (informer db) (ContainerID info)) = Some pod"
    using that
    by (simp add: OwnerPodInfo_def OwnerPodInfo_refresh_def GetContainerPod_def)
  then have "fetchedPodsCache db ns = None \<and> namespaces db ns = Some info \<and>
        fst (GetContainerPod (informer db) (ContainerID info)) = Some pod \<longrightarrow>
        fetchedPodsCache (snd (OwnerPodInfo db ns)) \<noteq> fetchedPodsCache db"
    by metis
  then show ?thesis
    by (simp add: ip_defs split: option.splits)
qed

theorem lookups_frame_witness:
  "snd (PodInfoForIP example_db_c1 ''10.0.0.9'') = example_db_c1
   \<and> snd (ServiceInfoForIP example_db_c1 ''10.0.0.9'') = example_db_c1
   \<and> snd (NodeInfoForIP example_db_c1 ''10.0.0.9'') = example_db_c1
   \<and> snd (HostNameForIP example_db_c1 ''10.0.0.9'') = example_db_c1
   \<and> snd (ServiceNameNamespaceForIP example_ServiceName example_db_c1 ''10.0.0.9'')
       = example_db_c1
   \<and> fetchedPodsCache example_db_c1 7 = None
   \<and> fetchedPodsCache (snd (OwnerPodInfo example_db_c1 7)) \<noteq> fetchedPodsCache example_db_c1"
proof -
  have pre: "fetchedPodsCache example_db_c1 7 = None
      \<and> namespaces example_db_c1 7 = Some \<lparr>ContainerID = ''c1'', PIDNamespace = 7\<rparr>
      \<and> fst (GetContainerPod (informer example_db_c1)
               (ContainerID \<lparr>ContainerID = ''c1'', PIDNamespace = 7\<rparr>)) = Some 1"
    by (simp add: example_eqs db_defs ip_defs Let_def)
  show ?thesis
    using lookups_frame [of example_db_c1 "''10.0.0.9''" example_ServiceName 7
        "\<lparr>ContainerID = ''c1'', PIDNamespace = 7\<rparr>" 1] pre
    by simp
qed

text \<open>
  C10: let the container-ID map hold \<open>i1\<close> for the container \<open>c1\<close>, and let
  \<^verbatim>\<open>AddProcess\<close> index a container \<open>i2\<close> with another ID and the PID namespace of \<open>i1\<close>,
  so that the namespace map points to \<open>i2\<close> under that namespace. Then
  \<^verbatim>\<open>OnDeletion([c1])\<close> removes the namespace entry all the same and leaves no pod-owner
  cache entry for the namespace, while \<open>i2\<close> stays in the container-ID map. This holds
  right after \<^verbatim>\<open>AddProcess\<close> and also when \<^verbatim>\<open>OwnerPodInfo\<close> has looked the namespace up in
  between.
\<close>

theorem OnDeletion_shared_namespace:
  assumes "containerIDs db c1 = Some i1"
      and "InfoForPID pid = Inr i2"
      and "ContainerID i2 \<noteq> c1"
      and "PIDNamespace i2 = PIDNamespace i1"
      and "db2 = AddProcess InfoForPID db pid \<or>
           db2 = snd (OwnerPodInfo (AddProcess InfoForPID db pid) (PIDNamespace i1))"
  shows "namespaces db2 (PIDNamespace i1) = Some i2
    \<and> namespaces (OnDeletion db2 [c1]) (PIDNamespace i1) = None
    \<and> fetchedPodsCache (OnDeletion db2 [c1]) (PIDNamespace i1) = None
    \<and> containerIDs (OnDeletion db2 [c1]) (ContainerID i2) = Some i2
    \<and> containerIDs (OnDeletion db2 [c1]) c1 = None"
proof -
  let ?db1 = "AddProcess InfoForPID db pid"
  have ns2: "namespaces db2 = namespaces ?db1" and ids2: "containerIDs db2 = containerIDs ?db1"
    using assms(5)
    by (auto simp: OwnerPodInfo_def OwnerPodInfo_refresh_def split: option.splits prod.splits)
  have ns1: "namespaces ?db1 (PIDNamespace i1) = Some i2"
    and c1: "containerIDs ?db1 c1 = Some i1"
    and c2: "containerIDs ?db1 (ContainerID i2) = Some i2"
    using assms(1-4) by (auto simp: AddProcess_def addProcess_def deletePodCache_def Let_def)
  show ?thesis
    using ns1 c1 c2 assms(3)
    by (simp add: ns2 ids2 OnDeletion_step_def deletePodCache_def Let_def)
qed

theorem OnDeletion_shared_namespace_witness:
  "namespaces (snd (OwnerPodInfo (AddProcess example_InfoForPID example_db_c1 200) 7)) 7
     = Some \<lparr>ContainerID = ''c2'', PIDNamespace = 7\<rparr>
   \<and> fetchedPodsCache (snd (OwnerPodInfo (AddProcess example_InfoForPID example_db_c1 200) 7)) 7
     = Some 1
   \<and> namespaces
       (OnDeletion (snd (OwnerPodInfo (AddProcess example_InfoForPID example_db_c1 200) 7))
          [''c1'']) 7 = None
   \<and> fetchedPodsCache
       (OnDeletion (snd (OwnerPodInfo (AddProcess example_InfoForPID example_db_c1 200) 7))
          [''c1'']) 7 = None
   \<and> containerIDs
       (OnDeletion (snd (OwnerPodInfo (AddProcess example_InfoForPID example_db_c1 200) 7))
          [''c1'']) ''c2'' = Some \<lparr>ContainerID = ''c2'', PIDNamespace = 7\<rparr>"
proof -
  have a1: "containerIDs example_db_c1 ''c1'' = Some \<lparr>ContainerID = ''c1'', PIDNamespace = 7\<rparr>"
    by (simp add: example_eqs db_defs ip_defs Let_def)
  have a2: "example_InfoForPID 200 = Inr \<lparr>ContainerID = ''c2'', PIDNamespace = 7\<rparr>"
    by (simp add: example_InfoForPID_def)
  have a3: "ContainerID \<lparr>ContainerID = ''c2'', PIDNamespace = 7\<rparr> \<noteq> ''c1''"
    by simp
  have a4: "PIDNamespace \<lparr>ContainerID = ''c2'', PIDNamespace = 7\<rparr>
      = PIDNamespace \<lparr>ContainerID = ''c1'', PIDNamespace = 7\<rparr>"
    by simp
  have cached: "fetchedPodsCache
       (snd (OwnerPodInfo (AddProcess example_InfoForPID example_db_c1 200) 7)) 7 = Some 1"
    by (simp add: example_eqs db_defs ip_defs Let_def)
  show ?thesis
    using OnDeletion_shared_namespace
        [where db = example_db_c1 and ?c1.0 = "''c1''" and InfoForPID = example_InfoForPID
           and pid = 200 and ?i1.0 = "\<lparr>ContainerID = ''c1'', PIDNamespace = 7\<rparr>"
           and ?i2.0 = "\<lparr>ContainerID = ''c2'', PIDNamespace = 7\<rparr>"
           and ?db2.0 = "snd (OwnerPodInfo (AddProcess example_InfoForPID example_db_c1 200) 7)"]
      a1 a2 a3 a4 cached
    by simp
qed

end
